theory Spec2Isabelle
  imports Main "HOL-Library.Word" "HOL-Library.Sublist"
begin

section \<open>Machine types and strings\<close>

text \<open>
  The file \<^verbatim>\<open>fs_mgr/fs_mgr_format.cpp\<close> works on \<^verbatim>\<open>uint64_t\<close> sizes, on C
  \<^verbatim>\<open>int\<close> status codes and on strings. Sizes are 64-bit words, so that \<open>-\<close>, \<open>+\<close>
  and \<open>*\<close> wrap around as they do in the code; the status codes are 32-bit words
  (read with \<open>sint\<close> where the sign matters).
\<close>

type_synonym u8 = "8 word"
type_synonym u16 = "16 word"
type_synonym u32 = "32 word"
type_synonym u64 = "64 word"
type_synonym cint = "32 word"

text \<open>
  \<^verbatim>\<open>std::to_string\<close> on an unsigned value: the decimal digits, most significant first,
  no leading zero, \<open>''0''\<close> for zero.
\<close>

definition digit_char :: "nat \<Rightarrow> char" where
  "digit_char d = ''0123456789'' ! d"

fun to_string :: "nat \<Rightarrow> string" where
  "to_string n =
     (if n < 10 then [digit_char n]
      else to_string (n div 10) @ [digit_char (n mod 10)])"

declare to_string.simps [simp del]

text \<open>The number that a string of decimal digits denotes, to check \<open>to_string\<close> against.\<close>

definition decimal_value :: "string \<Rightarrow> nat" where
  "decimal_value s = foldl (\<lambda>a c. 10 * a + (of_char c - 48)) 0 s"

section \<open>The environment\<close>

text \<open>
  A block device as the three system calls of the file see it. \<open>blkgetsize64\<close> is the
  outcome of the \<^verbatim>\<open>BLKGETSIZE64\<close> ioctl (\<open>None\<close> when it returns -1);
  \<open>dev_pread count off\<close> is the outcome of \<^verbatim>\<open>pread(fd, buf, count, off)\<close>: \<open>None\<close>
  when it returns -1, otherwise the bytes that were read (fewer than \<open>count\<close> on a short
  read). \<^verbatim>\<open>TEMP_FAILURE_RETRY\<close> repeats an interrupted call; the outcome here is the one
  of the call that was not interrupted.
\<close>

record device =
  blkgetsize64 :: "u64 option"
  dev_pread :: "nat \<Rightarrow> nat \<Rightarrow> u8 list option"

text \<open>
  The world around the file. The three constants come from headers that are not part of
  the file (\<^verbatim>\<open>cryptfs.h\<close>, \<^verbatim>\<open>linux/magic.h\<close>, \<^verbatim>\<open>errno.h\<close>) and are parameters:
  \<open>CRYPT_FOOTER_OFFSET\<close> is the macro's value as converted to \<^verbatim>\<open>uint64_t\<close> by
  \<^verbatim>\<open>dev_sz -= CRYPT_FOOTER_OFFSET\<close>. \<open>open_dev\<close> is \<^verbatim>\<open>open(path, O_RDONLY | O_CLOEXEC)\<close>,
  \<open>None\<close> when it fails. \<open>props\<close> is the system property store as a boolean lookup
  sees it (\<open>None\<close>: the property is absent or not a boolean). \<open>exec\<close> is the exit
  status that \<^verbatim>\<open>logwrap_fork_execvp\<close> returns for an argument vector; within one call
  of this file no argument vector is run twice, so a function of the vector loses
  nothing. Calls to the environment are taken to return. Log output is not modelled.
\<close>

record world =
  CRYPT_FOOTER_OFFSET :: u64
  F2FS_SUPER_MAGIC :: u32
  EINVAL :: cint
  open_dev :: "string \<Rightarrow> device option"
  props :: "string \<Rightarrow> bool option"
  exec :: "string list \<Rightarrow> cint"

text \<open>
  Modelled from the spec: \<^verbatim>\<open>android::base::GetBoolProperty\<close> is not in the file; the
  spec describes it as "a boolean system-settings lookup keyed by string name, with a
  default value when absent".
\<close>

definition GetBoolProperty :: "world \<Rightarrow> string \<Rightarrow> bool \<Rightarrow> bool" where
  "GetBoolProperty w key default_value =
     (case props w key of None \<Rightarrow> default_value | Some b \<Rightarrow> b)"

text \<open>
  The result of an operation: the returned status and the argument vectors handed to
  \<^verbatim>\<open>logwrap_fork_execvp\<close>, in the order of the calls.
\<close>

type_synonym outcome = "cint \<times> string list list"

text \<open>
  The partition entry (\<^verbatim>\<open>FstabEntry\<close>, declared outside the file): the fields the file
  reads. \<open>length'\<close> is the field \<^verbatim>\<open>length\<close>, the value as it arrives in the
  \<^verbatim>\<open>uint64_t dev_sz\<close> parameter.
\<close>

record fs_mgr_flags_t =
  fs_compress :: bool
  ext_meta_csum :: bool

record FstabEntry =
  blk_device :: string
  mount_point :: string
  fs_type :: string
  length' :: u64
  fs_mgr_flags :: fs_mgr_flags_t

section \<open>Device size\<close>

text \<open>
  \<^verbatim>\<open>get_dev_sz\<close>: -1 when the open or the ioctl fails, otherwise 0 with the size stored
  through the pointer. \<open>Inl\<close> carries the non-zero status, \<open>Inr\<close> the size.
\<close>

definition get_dev_sz :: "world \<Rightarrow> string \<Rightarrow> cint + u64" where
  "get_dev_sz w fs_blkdev =
     (case open_dev w fs_blkdev of
        None \<Rightarrow> Inl (- 1)
      | Some fd \<Rightarrow>
          (case blkgetsize64 fd of
             None \<Rightarrow> Inl (- 1)
           | Some dev_sz \<Rightarrow> Inr dev_sz))"

section \<open>Formatting\<close>

text \<open>Lines 90 to 115: the argument vector of \<^verbatim>\<open>mke2fs\<close>.\<close>

definition mke2fs_args :: "string \<Rightarrow> string \<Rightarrow> bool \<Rightarrow> bool \<Rightarrow> string list" where
  "mke2fs_args fs_blkdev size_str needs_projid needs_metadata_csum =
     (let args = [''/system/bin/mke2fs'', ''-t'', ''ext4'', ''-b'', ''4096''];
          args = (if needs_projid then args @ [''-I'', ''512''] else args);
          args = (if needs_metadata_csum
                  then args @ [''-O'', ''metadata_csum'', ''-O'', ''64bit'', ''-O'', ''extent'']
                  else args)
      in args @ [fs_blkdev, size_str])"

definition format_ext4 :: "world \<Rightarrow> string \<Rightarrow> string \<Rightarrow> bool \<Rightarrow> bool \<Rightarrow> bool \<Rightarrow> outcome" where
  "format_ext4 w fs_blkdev fs_mnt_point crypt_footer needs_projid needs_metadata_csum =
     (case get_dev_sz w fs_blkdev of
        Inl rc \<Rightarrow> (rc, [])
      | Inr dev_sz0 \<Rightarrow>
          (let dev_sz = (if crypt_footer then dev_sz0 - CRYPT_FOOTER_OFFSET w else dev_sz0);
               size_str = to_string (unat (dev_sz div 4096));
               args = mke2fs_args fs_blkdev size_str needs_projid needs_metadata_csum;
               rc = exec w args
           in if rc \<noteq> 0 then (rc, [args])
              else
                (let e2fsdroid_args =
                       [''/system/bin/e2fsdroid'', ''-e'', ''-a'', fs_mnt_point, fs_blkdev];
                     rc = exec w e2fsdroid_args
                 in (rc, [args, e2fsdroid_args]))))"

text \<open>Lines 152 to 170: the argument vector of \<^verbatim>\<open>make_f2fs\<close>.\<close>

definition make_f2fs_args :: "string \<Rightarrow> string \<Rightarrow> bool \<Rightarrow> bool \<Rightarrow> bool \<Rightarrow> string list" where
  "make_f2fs_args fs_blkdev size_str needs_projid needs_casefold fs_compress_flag =
     (let args = [''/system/bin/make_f2fs'', ''-g'', ''android''];
          args = (if needs_projid then args @ [''-O'', ''project_quota,extra_attr''] else args);
          args = (if needs_casefold then args @ [''-O'', ''casefold'', ''-C'', ''utf8''] else args);
          args = (if fs_compress_flag
                  then args @ [''-O'', ''compression'', ''-O'', ''extra_attr'']
                  else args)
      in args @ [fs_blkdev, size_str])"

definition format_f2fs :: "world \<Rightarrow> string \<Rightarrow> u64 \<Rightarrow> bool \<Rightarrow> bool \<Rightarrow> bool \<Rightarrow> bool \<Rightarrow> outcome" where
  "format_f2fs w fs_blkdev dev_sz_arg crypt_footer needs_projid needs_casefold fs_compress_flag =
     (case (if dev_sz_arg = 0 then get_dev_sz w fs_blkdev else Inr dev_sz_arg) of
        Inl rc \<Rightarrow> (rc, [])
      | Inr dev_sz0 \<Rightarrow>
          (let dev_sz = (if crypt_footer then dev_sz0 - CRYPT_FOOTER_OFFSET w else dev_sz0);
               size_str = to_string (unat (dev_sz div 4096));
               args = make_f2fs_args fs_blkdev size_str needs_projid needs_casefold
                        fs_compress_flag
           in (exec w args, [args])))"

text \<open>
  \<^verbatim>\<open>format_vfat\<close>: the \<^verbatim>\<open>access\<close> check only decides whether a line is logged.
\<close>

definition format_vfat :: "world \<Rightarrow> string \<Rightarrow> outcome" where
  "format_vfat w fs_blkdev =
     (let args = [''/system/bin/newfs_msdos'', ''-O'', ''android'', fs_blkdev]
      in (exec w args, [args]))"

definition fs_mgr_do_format :: "world \<Rightarrow> FstabEntry \<Rightarrow> bool \<Rightarrow> outcome" where
  "fs_mgr_do_format w entry crypt_footer =
     (let needs_casefold =
            (if mount_point entry = ''/data''
             then GetBoolProperty w ''external_storage.casefold.enabled'' False else False);
          needs_projid =
            (if mount_point entry = ''/data''
             then GetBoolProperty w ''external_storage.projid.enabled'' False else False)
      in if fs_type entry = ''f2fs''
         then format_f2fs w (blk_device entry) (length' entry) crypt_footer needs_projid
                needs_casefold (fs_compress (fs_mgr_flags entry))
         else if fs_type entry = ''ext4''
         then format_ext4 w (blk_device entry) (mount_point entry) crypt_footer needs_projid
                (ext_meta_csum (fs_mgr_flags entry))
         else if fs_type entry = ''vfat''
         then format_vfat w (blk_device entry)
         else (- EINVAL w, []))"

section \<open>The f2fs superblock\<close>

text \<open>
  \<^verbatim>\<open>struct f2fs_super_block\<close>, packed: 4 + 2 + 2 + 6 * 4 + 4 + 8 = 44 bytes, the block
  count in bytes 36 to 43. The fields are little-endian on disk and the code overlays the
  struct on the buffer; the hosts of this code are little-endian, so a field read is the
  little-endian value of its bytes.
\<close>

definition F2FS_BLKSIZE :: nat where "F2FS_BLKSIZE = 4096"
definition F2FS_SUPER_OFFSET :: nat where "F2FS_SUPER_OFFSET = 1024"
definition sizeof_sb :: nat where "sizeof_sb = 44"

record f2fs_super_block =
  magic :: u32
  major_ver :: u16
  minor_ver :: u16
  empty' :: "u32 list"
  checksum_offset :: u32
  block_count :: u64

fun le_nat :: "u8 list \<Rightarrow> nat" where
  "le_nat [] = 0"
| "le_nat (b # bs) = unat b + 256 * le_nat bs"

definition field :: "u8 list \<Rightarrow> nat \<Rightarrow> nat \<Rightarrow> nat" where
  "field buf off n = le_nat (take n (drop off buf))"

definition sb_of_bytes :: "u8 list \<Rightarrow> f2fs_super_block" where
  "sb_of_bytes buf =
     \<lparr> magic = of_nat (field buf 0 4),
       major_ver = of_nat (field buf 4 2),
       minor_ver = of_nat (field buf 6 2),
       empty' = map (\<lambda>i. of_nat (field buf (8 + 4 * i) 4)) [0..<6],
       checksum_offset = of_nat (field buf 32 4),
       block_count = of_nat (field buf 36 8) \<rparr>"

text \<open>
  One \<^verbatim>\<open>pread(fd, sb, sizeof(*sb), off) != sizeof(*sb)\<close> test: \<open>None\<close> when the test
  fails the read, otherwise the struct as filled. The descriptor is the result of an
  unchecked \<^verbatim>\<open>open\<close>; on a failed open it is -1 and \<^verbatim>\<open>pread\<close> returns -1.
\<close>

definition pread_sb :: "device option \<Rightarrow> nat \<Rightarrow> f2fs_super_block option" where
  "pread_sb fd off =
     (case fd of
        None \<Rightarrow> None
      | Some d \<Rightarrow>
          (case dev_pread d sizeof_sb off of
             None \<Rightarrow> None
           | Some buf \<Rightarrow> if length buf \<noteq> sizeof_sb then None else Some (sb_of_bytes buf)))"

text \<open>
  \<^verbatim>\<open>read_f2fs_sb\<close>: \<open>Some sb\<close> when it returns true with \<open>sb\<close> filled, \<open>None\<close> when it
  returns false (the caller does not read the struct then).
\<close>

definition read_f2fs_sb :: "world \<Rightarrow> string \<Rightarrow> f2fs_super_block option" where
  "read_f2fs_sb w blk =
     (let fd = open_dev w blk in
      case pread_sb fd F2FS_SUPER_OFFSET of
        None \<Rightarrow> None
      | Some sb \<Rightarrow>
          if magic sb = F2FS_SUPER_MAGIC w then Some sb
          else
            (case pread_sb fd (F2FS_BLKSIZE + F2FS_SUPER_OFFSET) of
               None \<Rightarrow> None
             | Some sb2 \<Rightarrow> if magic sb2 = F2FS_SUPER_MAGIC w then Some sb2 else None))"

definition get_f2fs_size :: "world \<Rightarrow> string \<Rightarrow> u64" where
  "get_f2fs_size w blk =
     (case read_f2fs_sb w blk of
        Some sb \<Rightarrow> block_count sb * of_nat F2FS_BLKSIZE
      | None \<Rightarrow> 0)"

section \<open>Resizing\<close>

definition resize_f2fs :: "world \<Rightarrow> string \<Rightarrow> u64 \<Rightarrow> bool \<Rightarrow> outcome" where
  "resize_f2fs w fs_blkdev dev_sz_arg crypt_footer =
     (case (if dev_sz_arg = 0 then get_dev_sz w fs_blkdev else Inr dev_sz_arg) of
        Inl rc \<Rightarrow> (rc, [])
      | Inr dev_sz0 \<Rightarrow>
          (let dev_sz = (if crypt_footer then dev_sz0 - CRYPT_FOOTER_OFFSET w else dev_sz0);
               f2fs_sz = get_f2fs_size w fs_blkdev
           in if f2fs_sz \<le> 0 \<or> dev_sz \<le> f2fs_sz + 4096 * 1024 then (0, [])
              else
                (let size_str = to_string (unat (dev_sz div 512));
                     args = [''/system/bin/resize.f2fs'', ''-t'', size_str, fs_blkdev]
                 in (exec w args, [args]))))"

definition fs_mgr_do_resize :: "world \<Rightarrow> FstabEntry \<Rightarrow> bool \<Rightarrow> outcome" where
  "fs_mgr_do_resize w entry crypt_footer =
     (if fs_type entry = ''f2fs''
      then resize_f2fs w (blk_device entry) (length' entry) crypt_footer
      else (- EINVAL w, []))"

section \<open>Concrete environments\<close>

text \<open>
  Inputs on which the theorems below are exercised. \<open>sb_image m bc\<close> is a 44-byte
  superblock record with the magic bytes \<open>m\<close> and the block-count bytes \<open>bc\<close>;
  \<open>disk sz r1 r2\<close> is a device of size \<open>sz\<close> whose reads at 1024 and at 5120 find
  \<open>r1\<close> and \<open>r2\<close>; \<open>sys\<close> is a world with the constants of an Android build
  (footer 16 KiB, magic 0xF2F52010, \<^verbatim>\<open>EINVAL\<close> 22).
\<close>

definition sb_image :: "u8 list \<Rightarrow> u8 list \<Rightarrow> u8 list" where
  "sb_image m bc =
     m @ [0,0,0,0, 0,0,0,0, 0,0,0,0, 0,0,0,0, 0,0,0,0, 0,0,0,0, 0,0,0,0, 0,0,0,0] @ bc"

definition good_sb :: "u8 list" where
  "good_sb = sb_image [0x10, 0x20, 0xF5, 0xF2] [0, 0, 4, 0, 0, 0, 0, 0]"

definition junk_sb :: "u8 list" where
  "junk_sb = sb_image [0xEF, 0xBE, 0xAD, 0xDE] [0, 2, 0, 0, 0, 0, 0, 0]"

definition disk :: "u64 option \<Rightarrow> u8 list option \<Rightarrow> u8 list option \<Rightarrow> device" where
  "disk sz r1 r2 =
     \<lparr> blkgetsize64 = sz,
       dev_pread = (\<lambda>count off.
         if off = 1024 then map_option (take count) r1
         else if off = 5120 then map_option (take count) r2
         else Some []) \<rparr>"

definition sys ::
  "(string \<Rightarrow> device option) \<Rightarrow> (string \<Rightarrow> bool option) \<Rightarrow> (string list \<Rightarrow> cint) \<Rightarrow> world" where
  "sys opn ps ex =
     \<lparr> CRYPT_FOOTER_OFFSET = 0x4000, F2FS_SUPER_MAGIC = 0xF2F52010, EINVAL = 22,
       open_dev = opn, props = ps, exec = ex \<rparr>"

text \<open>
  \<open>one_dev d\<close>: the only device that opens is \<^verbatim>\<open>/dev/x\<close>, and it is \<open>d\<close>. \<open>dev_x\<close>
  is such a table with a device of 1 GiB and a valid first superblock of 262144 blocks.
\<close>

definition one_dev :: "device \<Rightarrow> string \<Rightarrow> device option" where
  "one_dev d = (\<lambda>p. if p = ''/dev/x'' then Some d else None)"

definition dev_x :: "string \<Rightarrow> device option" where
  "dev_x = one_dev (disk (Some 0x40000000) (Some good_sb) None)"

text \<open>
  Property stores and exit statuses: no property set, every property true, every utility
  succeeding, and one utility failing with a given status. \<open>entry_x\<close> is an entry for
  \<^verbatim>\<open>/dev/x\<close> with both entry flags off.
\<close>

definition no_props :: "string \<Rightarrow> bool option" where
  "no_props = (\<lambda>_. None)"

definition all_props :: "string \<Rightarrow> bool option" where
  "all_props = (\<lambda>_. Some True)"

definition exec_ok :: "string list \<Rightarrow> cint" where
  "exec_ok = (\<lambda>_. 0)"

definition exec_fail :: "string \<Rightarrow> cint \<Rightarrow> string list \<Rightarrow> cint" where
  "exec_fail tool rc = (\<lambda>argv. if argv \<noteq> [] \<and> hd argv = tool then rc else 0)"

definition entry_x :: "string \<Rightarrow> string \<Rightarrow> u64 \<Rightarrow> FstabEntry" where
  "entry_x mnt ty len =
     \<lparr> blk_device = ''/dev/x'', mount_point = mnt, fs_type = ty, length' = len,
       fs_mgr_flags = \<lparr> fs_compress = False, ext_meta_csum = False \<rparr> \<rparr>"

text \<open>
  \<open>no_device\<close>: no path opens. \<open>small_disk\<close> is a device of 4096 bytes, smaller than
  the footer, that carries a valid superblock; \<open>blank_disk\<close> is one of the same size with
  no valid superblock. \<open>huge_fs_disk\<close> is a device of 2 GiB whose superblock has the valid
  magic and the block count \<open>0xFFFFFFFFFFFFF\<close>.
\<close>

definition huge_sb :: "u8 list" where
  "huge_sb = sb_image [0x10, 0x20, 0xF5, 0xF2] [0xFF, 0xFF, 0xFF, 0xFF, 0xFF, 0xFF, 0x0F, 0]"

definition huge_fs_disk :: device where
  "huge_fs_disk = disk (Some 0x80000000) (Some huge_sb) None"

definition no_device :: "string \<Rightarrow> device option" where
  "no_device = (\<lambda>_. None)"

definition small_disk :: device where
  "small_disk = disk (Some 4096) (Some good_sb) None"

definition blank_disk :: device where
  "blank_disk = disk (Some 4096) (Some junk_sb) (Some junk_sb)"

section \<open>Basic facts\<close>

text \<open>\<open>to_string\<close> writes the number it is given.\<close>

lemma digit_char_value: "d < 10 \<Longrightarrow> of_char (digit_char d) = (48 + d :: nat)"
proof -
  assume "d < 10"
  then have "d \<in> {0, 1, 2, 3, 4, 5, 6, 7, 8, 9}" by auto
  then show ?thesis
    by (auto simp: digit_char_def)
qed

lemma decimal_value_to_string: "decimal_value (to_string n) = n"
proof (induction n rule: to_string.induct)
  case (1 n)
  show ?case
  proof (cases "n < 10")
    case True
    then show ?thesis
      by (simp add: to_string.simps [of n] decimal_value_def digit_char_value)
  next
    case False
    have "n mod 10 < 10" by simp
    with False 1 show ?thesis
      by (simp add: to_string.simps [of n] decimal_value_def digit_char_value)
  qed
qed

text \<open>
  Where the 64-bit operations of the file agree with the ones on natural numbers: the
  slack sum when it stays below \<open>2 ^ 64\<close>, the size of a filesystem of fewer than
  \<open>2 ^ 52\<close> blocks, the usable size when the footer fits in the device.
\<close>

lemma slack_sum_exact:
  fixes T S :: u64
  assumes "unat S + 4194304 < 2 ^ 64"
  shows "(T \<le> S + 4096 * 1024) = (unat T \<le> unat S + 4194304)"
proof -
  have "unat (S + 4194304) = unat S + 4194304"
    using assms by (simp add: unat_add_lem [THEN iffD1])
  then show ?thesis
    by (simp add: word_le_nat_alt)
qed

lemma block_count_bytes_exact:
  fixes bc :: u64
  assumes "unat bc < 2 ^ 52"
  shows "unat (bc * 4096) = unat bc * 4096"
proof -
  have "unat bc * unat (4096 :: u64) < 2 ^ LENGTH(64)"
    using assms by simp
  then have "unat (bc * 4096) = unat bc * unat (4096 :: u64)"
    by (simp add: unat_mult_lem [THEN iffD1])
  then show ?thesis by simp
qed

lemma usable_size_exact:
  fixes D F :: u64
  assumes "F \<le> D"
  shows "unat ((D - F) div 4096) = (unat D - unat F) div 4096"
  using assms by (simp add: unat_div unat_sub)

lemma sys_sel [simp]:
  "CRYPT_FOOTER_OFFSET (sys opn ps ex) = 0x4000"
  "F2FS_SUPER_MAGIC (sys opn ps ex) = 0xF2F52010"
  "EINVAL (sys opn ps ex) = 22"
  "open_dev (sys opn ps ex) = opn"
  "props (sys opn ps ex) = ps"
  "exec (sys opn ps ex) = ex"
  by (simp_all add: sys_def)

lemma disk_sel [simp]:
  "blkgetsize64 (disk sz r1 r2) = sz"
  "dev_pread (disk sz r1 r2) 44 1024 = map_option (take 44) r1"
  "dev_pread (disk sz r1 r2) 44 5120 = map_option (take 44) r2"
  by (simp_all add: disk_def)

lemma length_images [simp]: "length good_sb = 44" "length junk_sb = 44"
  by (simp_all add: good_sb_def junk_sb_def sb_image_def)

lemma field_images [simp]:
  "field good_sb 0 4 = 0xF2F52010" "field good_sb 36 8 = 262144"
  "field junk_sb 0 4 = 0xDEADBEEF" "field junk_sb 36 8 = 512"
  by (simp_all add: good_sb_def junk_sb_def sb_image_def field_def)

lemma get_dev_sz_dev_x: "get_dev_sz (sys dev_x ps ex) ''/dev/x'' = Inr 0x40000000"
  by (simp add: get_dev_sz_def dev_x_def one_dev_def)

lemma entry_x_sel [simp]:
  "blk_device (entry_x mnt ty len) = ''/dev/x''"
  "mount_point (entry_x mnt ty len) = mnt"
  "fs_type (entry_x mnt ty len) = ty"
  "length' (entry_x mnt ty len) = len"
  "fs_compress (fs_mgr_flags (entry_x mnt ty len)) = False"
  "ext_meta_csum (fs_mgr_flags (entry_x mnt ty len)) = False"
  by (simp_all add: entry_x_def)

lemmas reader_defs = get_f2fs_size_def read_f2fs_sb_def pread_sb_def sizeof_sb_def
  F2FS_SUPER_OFFSET_def F2FS_BLKSIZE_def sb_of_bytes_def

lemma get_f2fs_size_dev_x: "get_f2fs_size (sys dev_x ps ex) ''/dev/x'' = 0x40000000"
  by (simp add: reader_defs dev_x_def one_dev_def)

lemma get_f2fs_size_junk:
  "get_f2fs_size (sys (one_dev (disk sz (Some junk_sb) (Some junk_sb))) ps ex) ''/dev/x'' = 0"
  by (simp add: reader_defs one_dev_def)

lemma last_mke2fs_args: "last (mke2fs_args d s p m) = s"
  by (simp add: mke2fs_args_def Let_def)

lemma hd_mke2fs_args: "hd (mke2fs_args d s p m) = ''/system/bin/mke2fs''"
  by (simp add: mke2fs_args_def Let_def)

lemma last_make_f2fs_args: "last (make_f2fs_args d s p c f) = s"
  by (simp add: make_f2fs_args_def Let_def)

lemma hd_make_f2fs_args: "hd (make_f2fs_args d s p c f) = ''/system/bin/make_f2fs''"
  by (simp add: make_f2fs_args_def Let_def)

text \<open>
  The scenario of the specification: an f2fs entry with compression on a device of
  1 GiB, no footer.
\<close>

lemma spec_scenario:
  "fs_mgr_do_format (sys dev_x no_props exec_ok)
     (\<lparr> blk_device = ''/dev/x'', mount_point = ''/data'', fs_type = ''f2fs'', length' = 0,
        fs_mgr_flags = \<lparr> fs_compress = True, ext_meta_csum = False \<rparr> \<rparr>) False =
     (0, [[''/system/bin/make_f2fs'', ''-g'', ''android'', ''-O'', ''compression'',
           ''-O'', ''extra_attr'', ''/dev/x'', ''262144'']])"
  by (simp add: fs_mgr_do_format_def GetBoolProperty_def no_props_def format_f2fs_def
        get_dev_sz_dev_x make_f2fs_args_def exec_ok_def to_string.simps digit_char_def)

text \<open>What each format path runs, once the device size is known.\<close>

lemma format_ext4_execs:
  assumes "get_dev_sz w dev = Inr D"
  shows "\<exists>rest. snd (format_ext4 w dev mnt C p m) =
           mke2fs_args dev
             (to_string (unat ((D - (if C then CRYPT_FOOTER_OFFSET w else 0)) div 4096))) p m
           # rest"
  using assms by (simp add: format_ext4_def Let_def)

lemma format_f2fs_execs:
  assumes "(if L = 0 then get_dev_sz w dev else Inr L) = Inr D"
  shows "snd (format_f2fs w dev L C p cf fc) =
           [make_f2fs_args dev
             (to_string (unat ((D - (if C then CRYPT_FOOTER_OFFSET w else 0)) div 4096)))
             p cf fc]"
  using assms by (simp add: format_f2fs_def Let_def)

section \<open>The block count handed to the formatters\<close>

text \<open>
  C1, as stated: for every device byte size \<open>D\<close> and footer flag, the block count
  passed to the ext4 and the f2fs formatter is the decimal string of the device size
  minus the footer, divided by 4096. It fails on the f2fs path for an entry with a
  non-zero declared length: on a device of 1 GiB with the footer, an entry of declared
  length 8 MiB makes \<^verbatim>\<open>make_f2fs\<close> receive 2044, not 262140.
\<close>

theorem f2fs_block_count_not_device_size:
  "get_dev_sz (sys dev_x no_props exec_ok) ''/dev/x'' = Inr 0x40000000 \<and>
   to_string (unat (((0x40000000 :: u64)
      - CRYPT_FOOTER_OFFSET (sys dev_x no_props exec_ok)) div 4096)) = ''262140'' \<and>
   fs_mgr_do_format (sys dev_x no_props exec_ok) (entry_x ''/data'' ''f2fs'' 0x800000) True =
     (0, [[''/system/bin/make_f2fs'', ''-g'', ''android'', ''/dev/x'', ''2044'']])"
  by (simp add: fs_mgr_do_format_def format_f2fs_def get_dev_sz_dev_x GetBoolProperty_def
        no_props_def exec_ok_def make_f2fs_args_def to_string.simps digit_char_def)

text \<open>
  C1, amended. For every queried device size \<open>D\<close> and crypto-footer flag \<open>C\<close>, the last
  argument of the \<^verbatim>\<open>mke2fs\<close> invocation, and of the \<^verbatim>\<open>make_f2fs\<close> invocation when
  \<^verbatim>\<open>format_f2fs\<close> is called with size 0, is the decimal string of
  \<open>(D - (if C then CRYPT_FOOTER_OFFSET else 0)) div 4096\<close>, the subtraction being the
  one of \<^verbatim>\<open>uint64_t\<close>. When \<^verbatim>\<open>format_f2fs\<close> is called with a non-zero size \<open>L\<close> (the
  entry's declared length), the last argument of \<^verbatim>\<open>make_f2fs\<close> is the decimal string
  of \<open>(L - (if C then CRYPT_FOOTER_OFFSET else 0)) div 4096\<close>.
\<close>

theorem format_block_count_arg:
  assumes "get_dev_sz w dev = Inr D"
  shows "(\<exists>a rest. snd (format_ext4 w dev mnt C p m) = a # rest \<and>
            hd a = ''/system/bin/mke2fs'' \<and>
            last a = to_string (unat ((D - (if C then CRYPT_FOOTER_OFFSET w else 0)) div 4096))) \<and>
         (\<exists>a. snd (format_f2fs w dev 0 C p cf fc) = [a] \<and>
            hd a = ''/system/bin/make_f2fs'' \<and>
            last a = to_string (unat ((D - (if C then CRYPT_FOOTER_OFFSET w else 0)) div 4096))) \<and>
         (L \<noteq> 0 \<longrightarrow>
           (\<exists>a. snd (format_f2fs w dev L C p cf fc) = [a] \<and>
              hd a = ''/system/bin/make_f2fs'' \<and>
              last a =
                to_string (unat ((L - (if C then CRYPT_FOOTER_OFFSET w else 0)) div 4096))))"
proof (intro conjI impI)
  from format_ext4_execs [OF assms]
  show "\<exists>a rest. snd (format_ext4 w dev mnt C p m) = a # rest \<and>
            hd a = ''/system/bin/mke2fs'' \<and>
            last a = to_string (unat ((D - (if C then CRYPT_FOOTER_OFFSET w else 0)) div 4096))"
    by (metis hd_mke2fs_args last_mke2fs_args)
next
  have "(if (0::u64) = 0 then get_dev_sz w dev else Inr 0) = Inr D"
    using assms by simp
  from format_f2fs_execs [OF this]
  show "\<exists>a. snd (format_f2fs w dev 0 C p cf fc) = [a] \<and>
            hd a = ''/system/bin/make_f2fs'' \<and>
            last a = to_string (unat ((D - (if C then CRYPT_FOOTER_OFFSET w else 0)) div 4096))"
    by (simp add: hd_make_f2fs_args last_make_f2fs_args)
next
  assume "L \<noteq> 0"
  then have "(if L = 0 then get_dev_sz w dev else Inr L) = Inr L"
    by simp
  from format_f2fs_execs [OF this]
  show "\<exists>a. snd (format_f2fs w dev L C p cf fc) = [a] \<and>
            hd a = ''/system/bin/make_f2fs'' \<and>
            last a = to_string (unat ((L - (if C then CRYPT_FOOTER_OFFSET w else 0)) div 4096))"
    by (simp add: hd_make_f2fs_args last_make_f2fs_args)
qed

theorem format_block_count_arg_witness:
  "get_dev_sz (sys dev_x no_props exec_ok) ''/dev/x'' = Inr 0x40000000 \<and>
   (\<exists>a rest.
      snd (format_ext4 (sys dev_x no_props exec_ok) ''/dev/x'' ''/data'' True False False) =
        a # rest \<and>
      hd a = ''/system/bin/mke2fs'' \<and> last a = ''262140'') \<and>
   (\<exists>a. snd (format_f2fs (sys dev_x no_props exec_ok) ''/dev/x'' 0 True False False True) =
        [a] \<and>
      hd a = ''/system/bin/make_f2fs'' \<and> last a = ''262140'') \<and>
   (\<exists>a. snd (format_f2fs (sys dev_x no_props exec_ok) ''/dev/x'' 0x800000 True False False
              True) = [a] \<and>
      hd a = ''/system/bin/make_f2fs'' \<and> last a = ''2044'')"
  using format_block_count_arg [OF get_dev_sz_dev_x, of no_props exec_ok "''/data''"
      True False False False True "0x800000"]
  by (simp add: get_dev_sz_dev_x to_string.simps digit_char_def)

section \<open>The superblock reader\<close>

lemma pread_sb_full:
  "dev_pread d 44 off = Some r \<Longrightarrow> length r = 44 \<Longrightarrow> pread_sb (Some d) off = Some (sb_of_bytes r)"
  by (simp add: pread_sb_def sizeof_sb_def)

lemma pread_sb_short:
  "\<forall>r. dev_pread d 44 off = Some r \<longrightarrow> length r \<noteq> 44 \<Longrightarrow> pread_sb (Some d) off = None"
  by (simp add: pread_sb_def sizeof_sb_def split: option.splits)

lemma magic_sb_of_bytes: "magic (sb_of_bytes r) = of_nat (field r 0 4)"
  by (simp add: sb_of_bytes_def)

lemma block_count_sb_of_bytes: "block_count (sb_of_bytes r) = of_nat (field r 36 8)"
  by (simp add: sb_of_bytes_def)

text \<open>
  C2. With the device open: the reader accepts the 44-byte record read at offset 1024
  exactly when its first four bytes, read little-endian, are the f2fs magic; otherwise it
  accepts the record read at offset 4096 + 1024 exactly when that one's magic matches. On
  acceptance the size is the record's block count (bytes 36 to 43) times 4096 in
  \<^verbatim>\<open>uint64_t\<close>; when neither record has the magic, or a read fails or is short, the
  reader returns false and the size is 0.
\<close>

theorem f2fs_superblock_reader:
  assumes opn: "open_dev w blk = Some d"
  shows
    "(dev_pread d 44 1024 = Some r1 \<and> length r1 = 44 \<longrightarrow>
        (read_f2fs_sb w blk = Some (sb_of_bytes r1)) = (of_nat (field r1 0 4) = F2FS_SUPER_MAGIC w)) \<and>
     (dev_pread d 44 1024 = Some r1 \<and> length r1 = 44 \<and> of_nat (field r1 0 4) = F2FS_SUPER_MAGIC w \<longrightarrow>
        get_f2fs_size w blk = of_nat (field r1 36 8) * 4096) \<and>
     (dev_pread d 44 1024 = Some r1 \<and> length r1 = 44 \<and> of_nat (field r1 0 4) \<noteq> F2FS_SUPER_MAGIC w \<and>
      dev_pread d 44 (4096 + 1024) = Some r2 \<and> length r2 = 44 \<longrightarrow>
        (read_f2fs_sb w blk = Some (sb_of_bytes r2)) = (of_nat (field r2 0 4) = F2FS_SUPER_MAGIC w) \<and>
        get_f2fs_size w blk =
          (if of_nat (field r2 0 4) = F2FS_SUPER_MAGIC w then of_nat (field r2 36 8) * 4096 else 0) \<and>
        (of_nat (field r2 0 4) \<noteq> F2FS_SUPER_MAGIC w \<longrightarrow> read_f2fs_sb w blk = None)) \<and>
     (dev_pread d 44 1024 = Some r1 \<and> length r1 = 44 \<and> of_nat (field r1 0 4) \<noteq> F2FS_SUPER_MAGIC w \<and>
      (\<forall>r. dev_pread d 44 (4096 + 1024) = Some r \<longrightarrow> length r \<noteq> 44) \<longrightarrow>
        read_f2fs_sb w blk = None \<and> get_f2fs_size w blk = 0) \<and>
     ((\<forall>r. dev_pread d 44 1024 = Some r \<longrightarrow> length r \<noteq> 44) \<longrightarrow>
        read_f2fs_sb w blk = None \<and> get_f2fs_size w blk = 0)"
proof (intro conjI impI; (elim conjE)?)
  assume r1: "dev_pread d 44 1024 = Some r1" "length r1 = 44"
  show "(read_f2fs_sb w blk = Some (sb_of_bytes r1)) = (of_nat (field r1 0 4) = F2FS_SUPER_MAGIC w)"
    using opn pread_sb_full [OF r1]
    by (auto simp: read_f2fs_sb_def Let_def F2FS_SUPER_OFFSET_def F2FS_BLKSIZE_def
          magic_sb_of_bytes split: option.splits)
next
  assume r1: "dev_pread d 44 1024 = Some r1" "length r1 = 44"
    and m: "of_nat (field r1 0 4) = F2FS_SUPER_MAGIC w"
  show "get_f2fs_size w blk = of_nat (field r1 36 8) * 4096"
    using opn pread_sb_full [OF r1] m
    by (simp add: get_f2fs_size_def read_f2fs_sb_def Let_def F2FS_SUPER_OFFSET_def
          F2FS_BLKSIZE_def magic_sb_of_bytes block_count_sb_of_bytes)
next
  assume r1: "dev_pread d 44 1024 = Some r1" "length r1 = 44"
    and m: "of_nat (field r1 0 4) \<noteq> F2FS_SUPER_MAGIC w"
    and r2: "dev_pread d 44 (4096 + 1024) = Some r2" "length r2 = 44"
  have rd: "read_f2fs_sb w blk =
      (if of_nat (field r2 0 4) = F2FS_SUPER_MAGIC w then Some (sb_of_bytes r2) else None)"
    using opn pread_sb_full [OF r1] pread_sb_full [OF r2] m
    by (simp add: read_f2fs_sb_def Let_def F2FS_SUPER_OFFSET_def F2FS_BLKSIZE_def
          magic_sb_of_bytes)
  show "(read_f2fs_sb w blk = Some (sb_of_bytes r2)) = (of_nat (field r2 0 4) = F2FS_SUPER_MAGIC w)"
    by (simp add: rd)
  show "get_f2fs_size w blk =
          (if of_nat (field r2 0 4) = F2FS_SUPER_MAGIC w then of_nat (field r2 36 8) * 4096 else 0)"
    by (simp add: get_f2fs_size_def rd block_count_sb_of_bytes F2FS_BLKSIZE_def)
  show "read_f2fs_sb w blk = None" if "of_nat (field r2 0 4) \<noteq> F2FS_SUPER_MAGIC w"
    using that by (simp add: rd)
next
  assume r1: "dev_pread d 44 1024 = Some r1" "length r1 = 44"
    and m: "of_nat (field r1 0 4) \<noteq> F2FS_SUPER_MAGIC w"
    and r2: "\<forall>r. dev_pread d 44 (4096 + 1024) = Some r \<longrightarrow> length r \<noteq> 44"
  have rd: "read_f2fs_sb w blk = None"
    using opn pread_sb_full [OF r1] pread_sb_short [OF r2] m
    by (simp add: read_f2fs_sb_def Let_def F2FS_SUPER_OFFSET_def F2FS_BLKSIZE_def
          magic_sb_of_bytes)
  show "read_f2fs_sb w blk = None" by (rule rd)
  show "get_f2fs_size w blk = 0" by (simp add: get_f2fs_size_def rd)
next
  assume r1: "\<forall>r. dev_pread d 44 1024 = Some r \<longrightarrow> length r \<noteq> 44"
  have rd: "read_f2fs_sb w blk = None"
    using opn pread_sb_short [OF r1]
    by (simp add: read_f2fs_sb_def Let_def F2FS_SUPER_OFFSET_def)
  show "read_f2fs_sb w blk = None" by (rule rd)
  show "get_f2fs_size w blk = 0" by (simp add: get_f2fs_size_def rd)
qed


theorem f2fs_superblock_reader_witness:
  "get_f2fs_size (sys (one_dev (disk None (Some good_sb) (Some junk_sb))) no_props exec_ok) ''/dev/x''
     = 262144 * 4096 \<and>
   get_f2fs_size (sys (one_dev (disk None (Some junk_sb) (Some good_sb))) no_props exec_ok) ''/dev/x''
     = 262144 * 4096 \<and>
   get_f2fs_size (sys (one_dev (disk None (Some junk_sb) (Some junk_sb))) no_props exec_ok) ''/dev/x''
     = 0 \<and>
   get_f2fs_size (sys (one_dev (disk None (Some junk_sb) (Some (take 40 good_sb)))) no_props exec_ok) ''/dev/x''
     = 0 \<and>
   get_f2fs_size (sys (one_dev (disk None None (Some good_sb))) no_props exec_ok) ''/dev/x''
     = 0"
proof -
  let ?w = "\<lambda>r1 r2. sys (one_dev (disk None r1 r2)) no_props exec_ok"
  have opn: "open_dev (?w r1 r2) ''/dev/x'' = Some (disk None r1 r2)" for r1 r2
    by (simp add: one_dev_def)
  have 1: "get_f2fs_size (?w (Some good_sb) (Some junk_sb)) ''/dev/x'' = 262144 * 4096"
    using f2fs_superblock_reader [OF opn, of "Some good_sb" "Some junk_sb" good_sb junk_sb]
    by simp
  have 2: "get_f2fs_size (?w (Some junk_sb) (Some good_sb)) ''/dev/x'' = 262144 * 4096"
    using f2fs_superblock_reader [OF opn, of "Some junk_sb" "Some good_sb" junk_sb good_sb]
    by simp
  have 3: "get_f2fs_size (?w (Some junk_sb) (Some junk_sb)) ''/dev/x'' = 0"
    using f2fs_superblock_reader [OF opn, of "Some junk_sb" "Some junk_sb" junk_sb junk_sb]
    by simp
  have 4: "get_f2fs_size (?w (Some junk_sb) (Some (take 40 good_sb))) ''/dev/x'' = 0"
    using f2fs_superblock_reader [OF opn, of "Some junk_sb" "Some (take 40 good_sb)" junk_sb junk_sb]
    by simp
  have 5: "get_f2fs_size (?w None (Some good_sb)) ''/dev/x'' = 0"
    using f2fs_superblock_reader [OF opn, of None "Some good_sb" junk_sb junk_sb]
    by simp
  from 1 2 3 4 5 show ?thesis by simp
qed


section \<open>The resize decision\<close>

lemma get_f2fs_size_huge:
  "get_f2fs_size (sys (one_dev huge_fs_disk) ps ex) ''/dev/x'' = 0xFFFFFFFFFFFFF000"
  by (simp add: reader_defs huge_fs_disk_def huge_sb_def sb_image_def field_def one_dev_def)

lemma get_dev_sz_huge:
  "get_dev_sz (sys (one_dev huge_fs_disk) ps ex) ''/dev/x'' = Inr 0x80000000"
  by (simp add: get_dev_sz_def huge_fs_disk_def one_dev_def)

text \<open>
  C3, as stated: when the target size does not exceed the current size plus 4 MiB, no
  utility is run and the result is 0. It fails when that sum passes \<open>2 ^ 64\<close>: with a
  superblock of block count \<open>0xFFFFFFFFFFFFF\<close> the current size is \<open>2 ^ 64 - 4096\<close>, the
  target of 2 GiB is below it, yet the code compares with the wrapped sum 4190208 and
  runs \<^verbatim>\<open>resize.f2fs\<close>.
\<close>

theorem resize_slack_sum_wraps:
  "get_dev_sz (sys (one_dev huge_fs_disk) no_props (exec_fail ''/system/bin/resize.f2fs'' 3))
     ''/dev/x'' = Inr 0x80000000 \<and>
   get_f2fs_size (sys (one_dev huge_fs_disk) no_props (exec_fail ''/system/bin/resize.f2fs'' 3))
     ''/dev/x'' = 0xFFFFFFFFFFFFF000 \<and>
   unat (0x80000000 :: u64) \<le> unat (0xFFFFFFFFFFFFF000 :: u64) + 4096 * 1024 \<and>
   fs_mgr_do_resize (sys (one_dev huge_fs_disk) no_props (exec_fail ''/system/bin/resize.f2fs'' 3))
     (entry_x ''/data'' ''f2fs'' 0) False =
     (3, [[''/system/bin/resize.f2fs'', ''-t'', ''4194304'', ''/dev/x'']])"
  by (simp add: fs_mgr_do_resize_def resize_f2fs_def get_dev_sz_huge get_f2fs_size_huge
        exec_fail_def to_string.simps digit_char_def)

text \<open>
  C3, amended. For an f2fs resize request whose target size is determined (the declared
  length when non-zero, else the queried device size \<open>D\<close>, minus the footer when
  requested): if the current size read from the superblock is 0, or the target does not
  exceed the current size plus 4096 * 1024, that sum taken in \<^verbatim>\<open>uint64_t\<close> (modulo
  \<open>2 ^ 64\<close>), no utility is run and the result is 0; otherwise \<^verbatim>\<open>resize.f2fs\<close> is run
  once with the target in 512-byte sectors and its status is the result. Whenever the
  current size plus 4194304 is below \<open>2 ^ 64\<close>, the comparison is the one on the numbers.
\<close>

theorem resize_f2fs_decision:
  assumes "fs_type e = ''f2fs''"
    and "length' e \<noteq> 0 \<and> D = length' e \<or>
         length' e = 0 \<and> get_dev_sz w (blk_device e) = Inr D"
  shows "(get_f2fs_size w (blk_device e) = 0 \<or>
          D - (if C then CRYPT_FOOTER_OFFSET w else 0)
            \<le> get_f2fs_size w (blk_device e) + 4096 * 1024 \<longrightarrow>
            fs_mgr_do_resize w e C = (0, [])) \<and>
         (\<not> (get_f2fs_size w (blk_device e) = 0 \<or>
             D - (if C then CRYPT_FOOTER_OFFSET w else 0)
               \<le> get_f2fs_size w (blk_device e) + 4096 * 1024) \<longrightarrow>
            fs_mgr_do_resize w e C =
              (exec w [''/system/bin/resize.f2fs'', ''-t'',
                       to_string (unat ((D - (if C then CRYPT_FOOTER_OFFSET w else 0)) div 512)),
                       blk_device e],
               [[''/system/bin/resize.f2fs'', ''-t'',
                 to_string (unat ((D - (if C then CRYPT_FOOTER_OFFSET w else 0)) div 512)),
                 blk_device e]])) \<and>
         (unat (get_f2fs_size w (blk_device e)) + 4194304 < 2 ^ 64 \<longrightarrow>
            (D - (if C then CRYPT_FOOTER_OFFSET w else 0)
               \<le> get_f2fs_size w (blk_device e) + 4096 * 1024) =
            (unat (D - (if C then CRYPT_FOOTER_OFFSET w else 0))
               \<le> unat (get_f2fs_size w (blk_device e)) + 4194304))"
proof -
  have sz: "(if length' e = 0 then get_dev_sz w (blk_device e) else Inr (length' e)) = Inr D"
    using assms(2) by auto
  have dec: "(get_f2fs_size w (blk_device e) = 0 \<or>
          D - (if C then CRYPT_FOOTER_OFFSET w else 0)
            \<le> get_f2fs_size w (blk_device e) + 4096 * 1024 \<longrightarrow>
            fs_mgr_do_resize w e C = (0, [])) \<and>
         (\<not> (get_f2fs_size w (blk_device e) = 0 \<or>
             D - (if C then CRYPT_FOOTER_OFFSET w else 0)
               \<le> get_f2fs_size w (blk_device e) + 4096 * 1024) \<longrightarrow>
            fs_mgr_do_resize w e C =
              (exec w [''/system/bin/resize.f2fs'', ''-t'',
                       to_string (unat ((D - (if C then CRYPT_FOOTER_OFFSET w else 0)) div 512)),
                       blk_device e],
               [[''/system/bin/resize.f2fs'', ''-t'',
                 to_string (unat ((D - (if C then CRYPT_FOOTER_OFFSET w else 0)) div 512)),
                 blk_device e]]))"
    using assms(1) sz by (simp add: fs_mgr_do_resize_def resize_f2fs_def Let_def)
  have ex: "unat (get_f2fs_size w (blk_device e)) + 4194304 < 2 ^ 64 \<longrightarrow>
            (D - (if C then CRYPT_FOOTER_OFFSET w else 0)
               \<le> get_f2fs_size w (blk_device e) + 4096 * 1024) =
            (unat (D - (if C then CRYPT_FOOTER_OFFSET w else 0))
               \<le> unat (get_f2fs_size w (blk_device e)) + 4194304)"
    using slack_sum_exact by blast
  from dec ex show ?thesis by blast
qed

theorem resize_f2fs_decision_witness:
  "fs_mgr_do_resize (sys dev_x no_props exec_ok) (entry_x ''/data'' ''f2fs'' 0) False = (0, []) \<and>
   fs_mgr_do_resize (sys dev_x no_props exec_ok) (entry_x ''/data'' ''f2fs'' 0x40400000) False = (0, []) \<and>
   fs_mgr_do_resize (sys dev_x no_props (exec_fail ''/system/bin/resize.f2fs'' 3))
       (entry_x ''/data'' ''f2fs'' 0x80000000) False =
     (3, [[''/system/bin/resize.f2fs'', ''-t'', ''4194304'', ''/dev/x'']]) \<and>
   fs_mgr_do_resize (sys (one_dev (disk None (Some junk_sb) (Some junk_sb))) no_props exec_ok)
       (entry_x ''/data'' ''f2fs'' 0x80000000) True = (0, [])"
proof -
  have 1: "fs_mgr_do_resize (sys dev_x no_props exec_ok) (entry_x ''/data'' ''f2fs'' 0) False = (0, [])"
    using resize_f2fs_decision [of "entry_x ''/data'' ''f2fs'' 0" "0x40000000"
        "sys dev_x no_props exec_ok" False]
    by (simp add: get_dev_sz_dev_x get_f2fs_size_dev_x)
  have 2: "fs_mgr_do_resize (sys dev_x no_props exec_ok) (entry_x ''/data'' ''f2fs'' 0x40400000) False = (0, [])"
    using resize_f2fs_decision [of "entry_x ''/data'' ''f2fs'' 0x40400000" "0x40400000"
        "sys dev_x no_props exec_ok" False]
    by (simp add: get_f2fs_size_dev_x)
  have 3: "fs_mgr_do_resize (sys dev_x no_props (exec_fail ''/system/bin/resize.f2fs'' 3))
       (entry_x ''/data'' ''f2fs'' 0x80000000) False =
     (3, [[''/system/bin/resize.f2fs'', ''-t'', ''4194304'', ''/dev/x'']])"
    using resize_f2fs_decision [of "entry_x ''/data'' ''f2fs'' 0x80000000" "0x80000000"
        "sys dev_x no_props (exec_fail ''/system/bin/resize.f2fs'' 3)" False]
    by (simp add: get_f2fs_size_dev_x to_string.simps digit_char_def exec_fail_def)
  have 4: "fs_mgr_do_resize (sys (one_dev (disk None (Some junk_sb) (Some junk_sb))) no_props exec_ok)
       (entry_x ''/data'' ''f2fs'' 0x80000000) True = (0, [])"
    using resize_f2fs_decision [of "entry_x ''/data'' ''f2fs'' 0x80000000" "0x80000000"
        "sys (one_dev (disk None (Some junk_sb) (Some junk_sb))) no_props exec_ok" True]
    by (simp add: get_f2fs_size_junk)
  from 1 2 3 4 show ?thesis by simp
qed

section \<open>Unsupported filesystem types\<close>

text \<open>
  C5. A filesystem type other than ext4, f2fs and vfat makes the format operation return
  \<^verbatim>\<open>-EINVAL\<close> with no utility run; a type other than f2fs (ext4 included) makes the
  resize operation return \<^verbatim>\<open>-EINVAL\<close> with no utility run.
\<close>

theorem unsupported_fs_type:
  "(fs_type e \<notin> {''ext4'', ''f2fs'', ''vfat''} \<longrightarrow>
      fs_mgr_do_format w e C = (- EINVAL w, [])) \<and>
   (fs_type e \<noteq> ''f2fs'' \<longrightarrow> fs_mgr_do_resize w e C = (- EINVAL w, []))"
  by (simp add: fs_mgr_do_format_def fs_mgr_do_resize_def Let_def)

theorem unsupported_fs_type_witness:
  "fs_mgr_do_format (sys dev_x all_props exec_ok) (entry_x ''/data'' ''ntfs'' 0) True = (- 22, []) \<and>
   fs_mgr_do_resize (sys dev_x all_props exec_ok) (entry_x ''/data'' ''ext4'' 0) True = (- 22, [])"
  using unsupported_fs_type [of "entry_x ''/data'' ''ntfs'' 0" "sys dev_x all_props exec_ok" True]
    unsupported_fs_type [of "entry_x ''/data'' ''ext4'' 0" "sys dev_x all_props exec_ok" True]
  by simp

section \<open>The two steps of the ext4 path\<close>

text \<open>
  C6. In the ext4 path, with the device size known: when \<^verbatim>\<open>mke2fs\<close> exits non-zero its
  status is returned and it is the only utility run; when it exits with 0,
  \<^verbatim>\<open>e2fsdroid\<close> is run next and its status is the result.
\<close>

theorem format_ext4_short_circuit:
  assumes "get_dev_sz w dev = Inr D"
  shows "(let a = mke2fs_args dev
                    (to_string (unat ((D - (if C then CRYPT_FOOTER_OFFSET w else 0)) div 4096)))
                    p m;
              b = [''/system/bin/e2fsdroid'', ''-e'', ''-a'', mnt, dev]
          in hd a = ''/system/bin/mke2fs'' \<and>
             (exec w a \<noteq> 0 \<longrightarrow> format_ext4 w dev mnt C p m = (exec w a, [a])) \<and>
             (exec w a = 0 \<longrightarrow> format_ext4 w dev mnt C p m = (exec w b, [a, b])))"
  using assms by (simp add: format_ext4_def Let_def hd_mke2fs_args)

theorem format_ext4_short_circuit_witness:
  "format_ext4 (sys dev_x no_props (exec_fail ''/system/bin/mke2fs'' 1)) ''/dev/x'' ''/data''
       False False False =
     (1, [[''/system/bin/mke2fs'', ''-t'', ''ext4'', ''-b'', ''4096'', ''/dev/x'', ''262144'']]) \<and>
   format_ext4 (sys dev_x no_props (exec_fail ''/system/bin/e2fsdroid'' 7)) ''/dev/x'' ''/data''
       False False False =
     (7, [[''/system/bin/mke2fs'', ''-t'', ''ext4'', ''-b'', ''4096'', ''/dev/x'', ''262144''],
          [''/system/bin/e2fsdroid'', ''-e'', ''-a'', ''/data'', ''/dev/x'']])"
  using format_ext4_short_circuit [where w = "sys dev_x no_props (exec_fail ''/system/bin/mke2fs'' 1)"
        and dev = "''/dev/x''" and mnt = "''/data''" and C = False and p = False and m = False,
        OF get_dev_sz_dev_x]
    format_ext4_short_circuit [where w = "sys dev_x no_props (exec_fail ''/system/bin/e2fsdroid'' 7)"
        and dev = "''/dev/x''" and mnt = "''/data''" and C = False and p = False and m = False,
        OF get_dev_sz_dev_x]
  by (simp add: Let_def mke2fs_args_def exec_fail_def to_string.simps digit_char_def)


section \<open>Feature options\<close>

lemma mke2fs_args_shape:
  "mke2fs_args dev s p m =
     [''/system/bin/mke2fs'', ''-t'', ''ext4'', ''-b'', ''4096''] @
     ((if p then [''-I'', ''512''] else []) @
      (if m then [''-O'', ''metadata_csum'', ''-O'', ''64bit'', ''-O'', ''extent''] else [])) @
     [dev, s]"
  by (simp add: mke2fs_args_def Let_def)

lemma make_f2fs_args_shape:
  "make_f2fs_args dev s p cf fc =
     [''/system/bin/make_f2fs'', ''-g'', ''android''] @
     ((if p then [''-O'', ''project_quota,extra_attr''] else []) @
      (if cf then [''-O'', ''casefold'', ''-C'', ''utf8''] else []) @
      (if fc then [''-O'', ''compression'', ''-O'', ''extra_attr''] else [])) @
     [dev, s]"
  by (simp add: make_f2fs_args_def Let_def)

lemma ext4_opts_iff:
  fixes p m :: bool
  defines "opts \<equiv> (if p then [''-I'', ''512''] else []) @
      (if m then [''-O'', ''metadata_csum'', ''-O'', ''64bit'', ''-O'', ''extent''] else [])"
  shows "sublist [''-I'', ''512''] opts = p"
    and "sublist [''-O'', ''metadata_csum'', ''-O'', ''64bit'', ''-O'', ''extent''] opts = m"
  by (cases p; cases m; simp add: opts_def sublist_Cons_right)+

lemma f2fs_opts_iff:
  fixes p cf fc :: bool
  defines "opts \<equiv> (if p then [''-O'', ''project_quota,extra_attr''] else []) @
      (if cf then [''-O'', ''casefold'', ''-C'', ''utf8''] else []) @
      (if fc then [''-O'', ''compression'', ''-O'', ''extra_attr''] else [])"
  shows "sublist [''-O'', ''project_quota,extra_attr''] opts = p"
    and "sublist [''-O'', ''casefold'', ''-C'', ''utf8''] opts = cf"
    and "sublist [''-O'', ''compression'', ''-O'', ''extra_attr''] opts = fc"
  by (cases p; cases cf; cases fc; simp add: opts_def sublist_Cons_right)+

text \<open>
  C7. With the device size known, the options that each formatter receives between its
  fixed leading arguments and the trailing device path and block count are the
  concatenation of one segment per flag, present exactly when the flag is true: for
  \<^verbatim>\<open>mke2fs\<close>, \<^verbatim>\<open>-I 512\<close> for project IDs and
  \<^verbatim>\<open>-O metadata_csum -O 64bit -O extent\<close> for the metadata checksum; for
  \<^verbatim>\<open>make_f2fs\<close>, \<^verbatim>\<open>-O project_quota,extra_attr\<close> for project IDs,
  \<^verbatim>\<open>-O casefold -C utf8\<close> for case folding and \<^verbatim>\<open>-O compression -O extra_attr\<close>
  for compression.
\<close>

theorem format_feature_options:
  assumes "get_dev_sz w dev = Inr D"
  shows "(\<exists>opts s rest.
            snd (format_ext4 w dev mnt C p m) =
              ([''/system/bin/mke2fs'', ''-t'', ''ext4'', ''-b'', ''4096''] @ opts @ [dev, s]) # rest \<and>
            opts = (if p then [''-I'', ''512''] else []) @
                   (if m then [''-O'', ''metadata_csum'', ''-O'', ''64bit'', ''-O'', ''extent'']
                    else []) \<and>
            sublist [''-I'', ''512''] opts = p \<and>
            sublist [''-O'', ''metadata_csum'', ''-O'', ''64bit'', ''-O'', ''extent''] opts = m) \<and>
         (\<exists>opts s.
            snd (format_f2fs w dev L C p cf fc) =
              [[''/system/bin/make_f2fs'', ''-g'', ''android''] @ opts @ [dev, s]] \<and>
            opts = (if p then [''-O'', ''project_quota,extra_attr''] else []) @
                   (if cf then [''-O'', ''casefold'', ''-C'', ''utf8''] else []) @
                   (if fc then [''-O'', ''compression'', ''-O'', ''extra_attr''] else []) \<and>
            sublist [''-O'', ''project_quota,extra_attr''] opts = p \<and>
            sublist [''-O'', ''casefold'', ''-C'', ''utf8''] opts = cf \<and>
            sublist [''-O'', ''compression'', ''-O'', ''extra_attr''] opts = fc)"
proof (rule conjI)
  obtain rest where
    "snd (format_ext4 w dev mnt C p m) =
       mke2fs_args dev
         (to_string (unat ((D - (if C then CRYPT_FOOTER_OFFSET w else 0)) div 4096))) p m # rest"
    using format_ext4_execs [OF assms] by blast
  then show "\<exists>opts s rest.
            snd (format_ext4 w dev mnt C p m) =
              ([''/system/bin/mke2fs'', ''-t'', ''ext4'', ''-b'', ''4096''] @ opts @ [dev, s]) # rest \<and>
            opts = (if p then [''-I'', ''512''] else []) @
                   (if m then [''-O'', ''metadata_csum'', ''-O'', ''64bit'', ''-O'', ''extent'']
                    else []) \<and>
            sublist [''-I'', ''512''] opts = p \<and>
            sublist [''-O'', ''metadata_csum'', ''-O'', ''64bit'', ''-O'', ''extent''] opts = m"
    unfolding mke2fs_args_shape using ext4_opts_iff [of p m] by blast
next
  have "(if L = 0 then get_dev_sz w dev else Inr L) = Inr (if L = 0 then D else L)"
    using assms by simp
  from format_f2fs_execs [OF this]
  show "\<exists>opts s.
            snd (format_f2fs w dev L C p cf fc) =
              [[''/system/bin/make_f2fs'', ''-g'', ''android''] @ opts @ [dev, s]] \<and>
            opts = (if p then [''-O'', ''project_quota,extra_attr''] else []) @
                   (if cf then [''-O'', ''casefold'', ''-C'', ''utf8''] else []) @
                   (if fc then [''-O'', ''compression'', ''-O'', ''extra_attr''] else []) \<and>
            sublist [''-O'', ''project_quota,extra_attr''] opts = p \<and>
            sublist [''-O'', ''casefold'', ''-C'', ''utf8''] opts = cf \<and>
            sublist [''-O'', ''compression'', ''-O'', ''extra_attr''] opts = fc"
    unfolding make_f2fs_args_shape using f2fs_opts_iff [of p cf fc] by blast
qed


theorem format_feature_options_witness:
  "(\<exists>s rest.
      snd (format_ext4 (sys dev_x no_props exec_ok) ''/dev/x'' ''/data'' False True False) =
        [''/system/bin/mke2fs'', ''-t'', ''ext4'', ''-b'', ''4096'', ''-I'', ''512'', ''/dev/x'', s]
        # rest) \<and>
   (\<exists>s rest.
      snd (format_ext4 (sys dev_x no_props exec_ok) ''/dev/x'' ''/data'' False False True) =
        [''/system/bin/mke2fs'', ''-t'', ''ext4'', ''-b'', ''4096'',
         ''-O'', ''metadata_csum'', ''-O'', ''64bit'', ''-O'', ''extent'', ''/dev/x'', s]
        # rest) \<and>
   (\<exists>s. snd (format_f2fs (sys dev_x no_props exec_ok) ''/dev/x'' 0 False True False True) =
        [[''/system/bin/make_f2fs'', ''-g'', ''android'', ''-O'', ''project_quota,extra_attr'',
          ''-O'', ''compression'', ''-O'', ''extra_attr'', ''/dev/x'', s]]) \<and>
   (\<exists>s. snd (format_f2fs (sys dev_x no_props exec_ok) ''/dev/x'' 0 False False True False) =
        [[''/system/bin/make_f2fs'', ''-g'', ''android'', ''-O'', ''casefold'', ''-C'', ''utf8'',
          ''/dev/x'', s]])"
  using
    format_feature_options [where w = "sys dev_x no_props exec_ok" and dev = "''/dev/x''"
        and mnt = "''/data''" and C = False and p = True and m = False and L = 0
        and cf = False and fc = True, OF get_dev_sz_dev_x]
    format_feature_options [where w = "sys dev_x no_props exec_ok" and dev = "''/dev/x''"
        and mnt = "''/data''" and C = False and p = False and m = True and L = 0
        and cf = True and fc = False, OF get_dev_sz_dev_x]
  by auto

section \<open>The system settings\<close>

lemma get_dev_sz_props [simp]: "get_dev_sz (w\<lparr>props := ps\<rparr>) dev = get_dev_sz w dev"
  by (simp add: get_dev_sz_def)

lemma format_paths_props [simp]:
  "format_ext4 (w\<lparr>props := ps\<rparr>) dev mnt C p m = format_ext4 w dev mnt C p m"
  "format_f2fs (w\<lparr>props := ps\<rparr>) dev L C p cf fc = format_f2fs w dev L C p cf fc"
  "format_vfat (w\<lparr>props := ps\<rparr>) dev = format_vfat w dev"
  by (simp_all add: format_ext4_def format_f2fs_def format_vfat_def Let_def split: sum.splits)

text \<open>
  C8. For an entry whose mount point is not \<^verbatim>\<open>/data\<close>, the format operation (status
  and argument vectors) is the same under any two property stores, and it is the
  dispatch with the case-folding and project-ID flags both false.
\<close>

theorem format_settings_only_on_data:
  assumes "mount_point e \<noteq> ''/data''"
  shows "fs_mgr_do_format (w\<lparr>props := ps\<rparr>) e C = fs_mgr_do_format (w\<lparr>props := ps'\<rparr>) e C \<and>
         fs_mgr_do_format w e C =
           (if fs_type e = ''f2fs''
            then format_f2fs w (blk_device e) (length' e) C False False
                   (fs_compress (fs_mgr_flags e))
            else if fs_type e = ''ext4''
            then format_ext4 w (blk_device e) (mount_point e) C False
                   (ext_meta_csum (fs_mgr_flags e))
            else if fs_type e = ''vfat'' then format_vfat w (blk_device e)
            else (- EINVAL w, []))"
  using assms by (simp add: fs_mgr_do_format_def)

lemma sys_props [simp]: "(sys opn ps ex)\<lparr>props := ps'\<rparr> = sys opn ps' ex"
  by (simp add: sys_def)

theorem format_settings_only_on_data_witness:
  "fs_mgr_do_format (sys dev_x no_props exec_ok) (entry_x ''/cache'' ''f2fs'' 0) False =
     fs_mgr_do_format (sys dev_x all_props exec_ok) (entry_x ''/cache'' ''f2fs'' 0) False \<and>
   fs_mgr_do_format (sys dev_x all_props exec_ok) (entry_x ''/cache'' ''f2fs'' 0) False =
     (0, [[''/system/bin/make_f2fs'', ''-g'', ''android'', ''/dev/x'', ''262144'']])"
  using format_settings_only_on_data [where e = "entry_x ''/cache'' ''f2fs'' 0"
      and w = "sys dev_x no_props exec_ok" and ps = no_props and ps' = all_props and C = False]
    format_settings_only_on_data [where e = "entry_x ''/cache'' ''f2fs'' 0"
      and w = "sys dev_x all_props exec_ok" and ps = no_props and ps' = all_props and C = False]
  by (simp add: format_f2fs_def get_dev_sz_dev_x make_f2fs_args_def exec_ok_def
        to_string.simps digit_char_def)

text \<open>On /data the settings do reach the argument list.\<close>

lemma format_data_reads_settings:
  "fs_mgr_do_format (sys dev_x all_props exec_ok) (entry_x ''/data'' ''f2fs'' 0) False =
     (0, [[''/system/bin/make_f2fs'', ''-g'', ''android'', ''-O'', ''project_quota,extra_attr'',
           ''-O'', ''casefold'', ''-C'', ''utf8'', ''/dev/x'', ''262144'']])"
  by (simp add: fs_mgr_do_format_def GetBoolProperty_def all_props_def format_f2fs_def
        get_dev_sz_dev_x make_f2fs_args_def exec_ok_def to_string.simps digit_char_def)


section \<open>The two block counts compared\<close>

text \<open>
  C4, as stated: the f2fs path and the ext4 path compute the same block count for the
  same entry and footer flag, also when the entry's declared length is non-zero. It fails:
  on a device of 1 GiB, an entry with declared length 8192 gets 262144 blocks on the
  ext4 path and 2 blocks on the f2fs path.
\<close>

theorem f2fs_block_count_declared_length:
  "last (hd (snd (fs_mgr_do_format (sys dev_x no_props exec_ok)
                    (entry_x ''/data'' ''ext4'' 8192) False))) = ''262144'' \<and>
   last (hd (snd (fs_mgr_do_format (sys dev_x no_props exec_ok)
                    (entry_x ''/data'' ''f2fs'' 8192) False))) = ''2'' \<and>
   last (hd (snd (fs_mgr_do_format (sys dev_x no_props exec_ok)
                    (entry_x ''/data'' ''ext4'' 8192) False))) \<noteq>
   last (hd (snd (fs_mgr_do_format (sys dev_x no_props exec_ok)
                    (entry_x ''/data'' ''f2fs'' 8192) False)))"
  by (simp add: fs_mgr_do_format_def format_ext4_def format_f2fs_def get_dev_sz_dev_x
        GetBoolProperty_def no_props_def exec_ok_def Let_def last_mke2fs_args
        last_make_f2fs_args to_string.simps digit_char_def)

text \<open>
  C4, amended. With the device size \<open>D\<close> known, the ext4 path always passes the block
  count of \<open>D\<close> (minus the footer when requested); the f2fs path passes the block count
  of the declared length when that is non-zero and of \<open>D\<close> when it is zero. So the two
  block counts are equal for every entry whose declared length is 0.
\<close>

theorem format_block_count_paths:
  assumes "get_dev_sz w (blk_device e) = Inr D"
  shows "(\<exists>a rest. snd (fs_mgr_do_format w (e\<lparr>fs_type := ''ext4''\<rparr>) C) = a # rest \<and>
            last a = to_string (unat ((D - (if C then CRYPT_FOOTER_OFFSET w else 0)) div 4096))) \<and>
         (\<exists>a. snd (fs_mgr_do_format w (e\<lparr>fs_type := ''f2fs''\<rparr>) C) = [a] \<and>
            last a = to_string (unat (((if length' e = 0 then D else length' e)
                                        - (if C then CRYPT_FOOTER_OFFSET w else 0)) div 4096))) \<and>
         (length' e = 0 \<longrightarrow>
            last (hd (snd (fs_mgr_do_format w (e\<lparr>fs_type := ''f2fs''\<rparr>) C))) =
            last (hd (snd (fs_mgr_do_format w (e\<lparr>fs_type := ''ext4''\<rparr>) C))))"
proof -
  let ?p = "mount_point e = ''/data'' \<and> GetBoolProperty w ''external_storage.projid.enabled'' False"
  let ?c = "mount_point e = ''/data'' \<and> GetBoolProperty w ''external_storage.casefold.enabled'' False"
  have e4: "fs_mgr_do_format w (e\<lparr>fs_type := ''ext4''\<rparr>) C =
      format_ext4 w (blk_device e) (mount_point e) C ?p (ext_meta_csum (fs_mgr_flags e))"
    by (simp add: fs_mgr_do_format_def)
  have f2: "fs_mgr_do_format w (e\<lparr>fs_type := ''f2fs''\<rparr>) C =
      format_f2fs w (blk_device e) (length' e) C ?p ?c (fs_compress (fs_mgr_flags e))"
    by (simp add: fs_mgr_do_format_def)
  have sz: "(if length' e = 0 then get_dev_sz w (blk_device e) else Inr (length' e)) =
      Inr (if length' e = 0 then D else length' e)"
    using assms by simp
  obtain rest where x: "snd (fs_mgr_do_format w (e\<lparr>fs_type := ''ext4''\<rparr>) C) =
      mke2fs_args (blk_device e)
        (to_string (unat ((D - (if C then CRYPT_FOOTER_OFFSET w else 0)) div 4096)))
        ?p (ext_meta_csum (fs_mgr_flags e)) # rest"
    unfolding e4 using format_ext4_execs [OF assms] by blast
  note y = format_f2fs_execs [OF sz, of C ?p ?c "fs_compress (fs_mgr_flags e)", folded f2]
  show ?thesis
    by (simp add: x y last_mke2fs_args last_make_f2fs_args)
qed

theorem format_block_count_paths_witness:
  "(\<exists>a rest. snd (fs_mgr_do_format (sys dev_x no_props exec_ok)
                     (entry_x ''/data'' ''ext4'' 0) True) = a # rest \<and> last a = ''262140'') \<and>
   (\<exists>a. snd (fs_mgr_do_format (sys dev_x no_props exec_ok)
                (entry_x ''/data'' ''f2fs'' 0) True) = [a] \<and> last a = ''262140'') \<and>
   (\<exists>a. snd (fs_mgr_do_format (sys dev_x no_props exec_ok)
                (entry_x ''/data'' ''f2fs'' 0x800000) True) = [a] \<and> last a = ''2044'')"
proof -
  have t: "(entry_x mnt ty len)\<lparr>fs_type := ty'\<rparr> = entry_x mnt ty' len" for mnt ty ty' len
    by (simp add: entry_x_def)
  have d: "get_dev_sz (sys dev_x no_props exec_ok) (blk_device (entry_x ''/data'' ty len)) =
      Inr 0x40000000" for ty len
    by (simp add: get_dev_sz_dev_x)
  show ?thesis
    using format_block_count_paths [OF d, of "''ext4''" 0 True]
      format_block_count_paths [OF d, of "''ext4''" "0x800000" True]
    by (simp add: t to_string.simps digit_char_def)
qed

section \<open>Resizing a device that does not open\<close>

lemma read_f2fs_sb_unopened:
  "open_dev w blk = None \<Longrightarrow> read_f2fs_sb w blk = None"
  by (simp add: read_f2fs_sb_def pread_sb_def)

lemma get_f2fs_size_unopened:
  "open_dev w blk = None \<Longrightarrow> get_f2fs_size w blk = 0"
  by (simp add: get_f2fs_size_def read_f2fs_sb_unopened)

lemma get_f2fs_size_unread:
  assumes "open_dev w blk = Some d"
    and "\<forall>r. dev_pread d 44 1024 = Some r \<longrightarrow> length r \<noteq> 44"
  shows "get_f2fs_size w blk = 0"
  using assms(1) pread_sb_short [OF assms(2)]
  by (simp add: get_f2fs_size_def read_f2fs_sb_def F2FS_SUPER_OFFSET_def)

lemma resize_f2fs_no_sb:
  assumes "(if L = 0 then get_dev_sz w dev else Inr L) = Inr D"
    and "get_f2fs_size w dev = 0"
  shows "resize_f2fs w dev L C = (0, [])"
  using assms by (simp add: resize_f2fs_def Let_def)

text \<open>
  The size query does check its open. It runs before the reader when the declared length
  is 0, so on a device that opens for neither of them such a resize ends with the -1 of
  the query and the reader is not reached. (The world gives one outcome per path to both
  opens.)
\<close>

lemma resize_size_query_fails_first:
  "open_dev (sys no_device no_props exec_ok) ''/dev/x'' = None \<and>
   fs_mgr_do_resize (sys no_device no_props exec_ok) (entry_x ''/data'' ''f2fs'' 0) False =
     (- 1, [])"
  by (simp add: fs_mgr_do_resize_def resize_f2fs_def get_dev_sz_def no_device_def)

text \<open>
  C9. The superblock reader does not check its open: when the open fails the reads fail,
  the reader returns false and the current size is 0. So an f2fs resize that reaches the
  reader (its target size is determined) on a device that does not open, or on one that
  opens but whose first superblock read fails or is short, returns 0 with no utility
  run; no error of the open comes out of the reader.
\<close>

theorem resize_reader_open_unchecked:
  assumes "fs_type e = ''f2fs''"
  shows "(open_dev w (blk_device e) = None \<longrightarrow>
            read_f2fs_sb w (blk_device e) = None \<and> get_f2fs_size w (blk_device e) = 0) \<and>
         (open_dev w (blk_device e) = None \<and>
          (if length' e = 0 then get_dev_sz w (blk_device e) else Inr (length' e)) = Inr D \<longrightarrow>
            fs_mgr_do_resize w e C = (0, [])) \<and>
         (open_dev w (blk_device e) = Some d \<and>
          (\<forall>r. dev_pread d 44 1024 = Some r \<longrightarrow> length r \<noteq> 44) \<and>
          (if length' e = 0 then get_dev_sz w (blk_device e) else Inr (length' e)) = Inr D \<longrightarrow>
            get_f2fs_size w (blk_device e) = 0 \<and> fs_mgr_do_resize w e C = (0, []))"
proof (intro conjI impI; (elim conjE)?)
  assume "open_dev w (blk_device e) = None"
  then show "read_f2fs_sb w (blk_device e) = None" "get_f2fs_size w (blk_device e) = 0"
    by (simp_all add: read_f2fs_sb_unopened get_f2fs_size_unopened)
next
  assume o: "open_dev w (blk_device e) = None"
    and t: "(if length' e = 0 then get_dev_sz w (blk_device e) else Inr (length' e)) = Inr D"
  from resize_f2fs_no_sb [OF t get_f2fs_size_unopened [OF o]]
  show "fs_mgr_do_resize w e C = (0, [])"
    using assms by (simp add: fs_mgr_do_resize_def)
next
  assume o: "open_dev w (blk_device e) = Some d"
    and r: "\<forall>r. dev_pread d 44 1024 = Some r \<longrightarrow> length r \<noteq> 44"
    and t: "(if length' e = 0 then get_dev_sz w (blk_device e) else Inr (length' e)) = Inr D"
  show "get_f2fs_size w (blk_device e) = 0"
    by (rule get_f2fs_size_unread [OF o r])
  from resize_f2fs_no_sb [OF t get_f2fs_size_unread [OF o r]]
  show "fs_mgr_do_resize w e C = (0, [])"
    using assms by (simp add: fs_mgr_do_resize_def)
qed

theorem resize_reader_open_unchecked_witness:
  "get_f2fs_size (sys no_device no_props exec_ok) ''/dev/x'' = 0 \<and>
   fs_mgr_do_resize (sys no_device no_props exec_ok) (entry_x ''/data'' ''f2fs'' 0x40000000) True =
     (0, []) \<and>
   fs_mgr_do_resize (sys (one_dev (disk (Some 0x40000000) None None)) no_props exec_ok)
     (entry_x ''/data'' ''f2fs'' 0) True = (0, [])"
  using resize_reader_open_unchecked [where e = "entry_x ''/data'' ''f2fs'' 0x40000000"
      and w = "sys no_device no_props exec_ok" and C = True and D = "0x40000000"]
    resize_reader_open_unchecked [where e = "entry_x ''/data'' ''f2fs'' 0"
      and w = "sys (one_dev (disk (Some 0x40000000) None None)) no_props exec_ok" and C = True
      and d = "disk (Some 0x40000000) None None" and D = "0x40000000"]
  by (simp add: no_device_def one_dev_def get_dev_sz_def)

section \<open>A device smaller than the crypto footer\<close>

lemma unat_sub_wraps:
  fixes D F :: u64
  assumes "D < F"
  shows "unat (D - F) = 2 ^ 64 + unat D - unat F" and "unat D < 2 ^ 64 + unat D - unat F"
proof -
  have lt: "unat D < unat F"
    using assms by (simp add: word_less_nat_alt)
  have b: "unat F < 2 ^ 64"
    using unsigned_less [of F] by simp
  show "unat (D - F) = 2 ^ 64 + unat D - unat F"
    using lt by (simp add: unat_sub_if_size word_size)
  show "unat D < 2 ^ 64 + unat D - unat F"
    using lt b by arith
qed

text \<open>
  C10, as stated: with the footer flag set and a size below the footer offset, every
  format or resize call passes the wrapped count to the utility. It fails for a resize:
  on a device of 4096 bytes without a valid superblock the wrapped size is computed, but
  the resize is skipped and no utility is run.
\<close>

theorem resize_wrapped_size_skipped:
  "get_dev_sz (sys (one_dev blank_disk) no_props exec_ok) ''/dev/x'' = Inr 4096 \<and>
   (4096 :: u64) < CRYPT_FOOTER_OFFSET (sys (one_dev blank_disk) no_props exec_ok) \<and>
   fs_mgr_do_resize (sys (one_dev blank_disk) no_props exec_ok)
     (entry_x ''/data'' ''f2fs'' 0) True = (0, [])"
  by (simp add: fs_mgr_do_resize_def resize_f2fs_def get_dev_sz_def one_dev_def blank_disk_def
        reader_defs)

text \<open>
  C10, amended. With the footer flag set and a size \<open>D\<close> below the footer offset, the
  usable size is \<open>2 ^ 64 + D - CRYPT_FOOTER_OFFSET\<close>, larger than \<open>D\<close>. Both format paths
  run their formatter with that size divided by 4096. The f2fs resize runs
  \<^verbatim>\<open>resize.f2fs\<close> with that size divided by 512 when the current size is non-zero and
  the wrapped size exceeds it by more than 4096 * 1024; otherwise it runs nothing and
  returns 0.
\<close>

theorem crypt_footer_subtraction_wraps:
  assumes "D < CRYPT_FOOTER_OFFSET w"
  shows "unat (D - CRYPT_FOOTER_OFFSET w) = 2 ^ 64 + unat D - unat (CRYPT_FOOTER_OFFSET w) \<and>
         unat D < unat (D - CRYPT_FOOTER_OFFSET w) \<and>
         (get_dev_sz w dev = Inr D \<longrightarrow>
            (\<exists>a rest. snd (format_ext4 w dev mnt True p m) = a # rest \<and>
               hd a = ''/system/bin/mke2fs'' \<and>
               last a =
                 to_string ((2 ^ 64 + unat D - unat (CRYPT_FOOTER_OFFSET w)) div 4096))) \<and>
         ((if L = 0 then get_dev_sz w dev else Inr L) = Inr D \<longrightarrow>
            (\<exists>a. format_f2fs w dev L True p cf fc = (exec w a, [a]) \<and>
               hd a = ''/system/bin/make_f2fs'' \<and>
               last a =
                 to_string ((2 ^ 64 + unat D - unat (CRYPT_FOOTER_OFFSET w)) div 4096))) \<and>
         ((if L = 0 then get_dev_sz w dev else Inr L) = Inr D \<and>
          get_f2fs_size w dev \<noteq> 0 \<and>
          \<not> D - CRYPT_FOOTER_OFFSET w \<le> get_f2fs_size w dev + 4096 * 1024 \<longrightarrow>
            resize_f2fs w dev L True =
              (exec w [''/system/bin/resize.f2fs'', ''-t'',
                       to_string ((2 ^ 64 + unat D - unat (CRYPT_FOOTER_OFFSET w)) div 512), dev],
               [[''/system/bin/resize.f2fs'', ''-t'',
                 to_string ((2 ^ 64 + unat D - unat (CRYPT_FOOTER_OFFSET w)) div 512), dev]])) \<and>
         ((if L = 0 then get_dev_sz w dev else Inr L) = Inr D \<and>
          (get_f2fs_size w dev = 0 \<or>
           D - CRYPT_FOOTER_OFFSET w \<le> get_f2fs_size w dev + 4096 * 1024) \<longrightarrow>
            resize_f2fs w dev L True = (0, []))"
proof -
  let ?U = "2 ^ 64 + unat D - unat (CRYPT_FOOTER_OFFSET w)"
  note u = unat_sub_wraps [OF assms]
  have b: "unat ((D - CRYPT_FOOTER_OFFSET w) div 4096) = ?U div 4096"
    by (simp add: unat_div u(1))
  have s: "unat ((D - CRYPT_FOOTER_OFFSET w) div 512) = ?U div 512"
    by (simp add: unat_div u(1))
  have 1: "unat (D - CRYPT_FOOTER_OFFSET w) = ?U" by (rule u(1))
  have 2: "unat D < unat (D - CRYPT_FOOTER_OFFSET w)" using u by simp
  have 3: "\<exists>a rest. snd (format_ext4 w dev mnt True p m) = a # rest \<and>
               hd a = ''/system/bin/mke2fs'' \<and> last a = to_string (?U div 4096)"
    if "get_dev_sz w dev = Inr D"
    using format_ext4_execs [OF that, of mnt True p m]
    by (auto simp: b hd_mke2fs_args last_mke2fs_args)
  have 4: "\<exists>a. format_f2fs w dev L True p cf fc = (exec w a, [a]) \<and>
               hd a = ''/system/bin/make_f2fs'' \<and> last a = to_string (?U div 4096)"
    if "(if L = 0 then get_dev_sz w dev else Inr L) = Inr D"
    using that by (simp add: format_f2fs_def Let_def b hd_make_f2fs_args last_make_f2fs_args)
  have 5: "resize_f2fs w dev L True =
              (exec w [''/system/bin/resize.f2fs'', ''-t'', to_string (?U div 512), dev],
               [[''/system/bin/resize.f2fs'', ''-t'', to_string (?U div 512), dev]])"
    if "(if L = 0 then get_dev_sz w dev else Inr L) = Inr D"
      and "get_f2fs_size w dev \<noteq> 0"
      and "\<not> D - CRYPT_FOOTER_OFFSET w \<le> get_f2fs_size w dev + 4096 * 1024"
    using that by (simp add: resize_f2fs_def Let_def s)
  have 6: "resize_f2fs w dev L True = (0, [])"
    if "(if L = 0 then get_dev_sz w dev else Inr L) = Inr D"
      and "get_f2fs_size w dev = 0 \<or>
           D - CRYPT_FOOTER_OFFSET w \<le> get_f2fs_size w dev + 4096 * 1024"
    using that by (simp add: resize_f2fs_def Let_def)
  from 1 2 3 4 5 6 show ?thesis by blast
qed

lemma get_f2fs_size_small_disk:
  "get_f2fs_size (sys (one_dev small_disk) ps ex) ''/dev/x'' = 0x40000000"
  by (simp add: reader_defs small_disk_def one_dev_def)

lemma get_dev_sz_small_disk:
  "get_dev_sz (sys (one_dev small_disk) ps ex) ''/dev/x'' = Inr 4096"
  by (simp add: get_dev_sz_def small_disk_def one_dev_def)

theorem crypt_footer_subtraction_wraps_witness:
  "(4096 :: u64) < CRYPT_FOOTER_OFFSET (sys (one_dev small_disk) no_props exec_ok) \<and>
   unat ((4096 :: u64) - CRYPT_FOOTER_OFFSET (sys (one_dev small_disk) no_props exec_ok)) =
     18446744073709539328 \<and>
   (\<exists>a rest. snd (format_ext4 (sys (one_dev small_disk) no_props exec_ok) ''/dev/x'' ''/data''
                     True False False) = a # rest \<and>
      hd a = ''/system/bin/mke2fs'' \<and> last a = ''4503599627370493'') \<and>
   (\<exists>a. format_f2fs (sys (one_dev small_disk) no_props exec_ok) ''/dev/x'' 0
            True False False False = (0, [a]) \<and>
      hd a = ''/system/bin/make_f2fs'' \<and> last a = ''4503599627370493'') \<and>
   resize_f2fs (sys (one_dev small_disk) no_props exec_ok) ''/dev/x'' 0 True =
     (0, [[''/system/bin/resize.f2fs'', ''-t'', ''36028797018963944'', ''/dev/x'']])"
proof -
  let ?w = "sys (one_dev small_disk) no_props exec_ok"
  have lt: "(4096 :: u64) < CRYPT_FOOTER_OFFSET ?w" by simp
  have sz: "(if (0::u64) = 0 then get_dev_sz ?w ''/dev/x'' else Inr 0) = Inr 4096"
    by (simp add: get_dev_sz_small_disk)
  show ?thesis
    using crypt_footer_subtraction_wraps [OF lt, of "''/dev/x''" "''/data''" False False 0
        False False]
    by (simp add: get_dev_sz_small_disk get_f2fs_size_small_disk exec_ok_def
          to_string.simps digit_char_def)
qed


end
